theory Spec2Isabelle
  imports Complex_Main "HOL-Library.Word"
begin

section \<open>Media upload handlers of the file-storage server\<close>

text \<open>
  A shallow embedding of \<^verbatim>\<open>src/api/thumbnails.ts\<close>: the thumbnail handlers
  \<^verbatim>\<open>handlerGetThumbnail\<close> and \<^verbatim>\<open>handlerUploadThumbnail\<close>, the video handler
  \<^verbatim>\<open>handlerUploadVideo\<close> and its helpers \<^verbatim>\<open>dbVideoToSignedVideo\<close>,
  \<^verbatim>\<open>getVideoAspectRatio\<close> and \<^verbatim>\<open>processVideoForFastStart\<close>.

  Every \<^verbatim>\<open>throw\<close> is a value \<open>Inl e\<close>; the module-level map, the record store,
  the filesystem and the bucket are fields of an explicit \<open>world\<close> that each handler
  takes and returns. What the outside delivers during one request (the verdict on the
  bearer token, the form read from the body, the random name, the two child processes,
  the bucket's answer, the signer) is a field of \<open>request\<close> or \<open>externals\<close>.
\<close>

subsection \<open>JavaScript numbers\<close>

text \<open>
  A JavaScript number is an IEEE 754 binary64 value. Finite values are the rationals
  they denote; the two zeros are one value (no operation below tells them apart in a
  way that reaches a comparison). \<open>to_double\<close> rounds an exact rational to the nearest
  binary64 value, ties to even: 53 significant bits, gradual underflow below
  \<open>2 ^ - 1022\<close>, overflow to infinity from \<open>2 ^ 1024\<close> on.
\<close>

datatype jsnum = Fin rat | PInf | NInf | NaN

function bitlen :: "int \<Rightarrow> int" where
  "bitlen n = (if n \<le> 0 then 0 else 1 + bitlen (n div 2))"
  by pat_completeness auto
termination
  by (relation "measure nat") auto

definition pow2 :: "int \<Rightarrow> rat" where
  "pow2 k = (if 0 \<le> k then 2 ^ nat k else 1 / 2 ^ nat (- k))"

definition ilog2 :: "rat \<Rightarrow> int" where
  "ilog2 x = (let (n, d) = quotient_of x;
                  k = bitlen n - bitlen d
              in if pow2 k \<le> x then k else k - 1)"

definition rne :: "rat \<Rightarrow> int" where
  "rne x = (let f = \<lfloor>x\<rfloor>; d = x - of_int f
            in if d < 1 / 2 then f else if 1 / 2 < d then f + 1
               else if even f then f else f + 1)"

definition to_double :: "rat \<Rightarrow> jsnum" where
  "to_double x =
     (if x = 0 then Fin 0
      else let a = \<bar>x\<bar>;
               e = max (ilog2 a) (- 1022);
               m = rne (a * pow2 (52 - e));
               r = of_int m * pow2 (e - 52)
           in if 1024 \<le> ilog2 r then (if 0 < x then PInf else NInf)
              else Fin (sgn x * r))"

fun js_div :: "jsnum \<Rightarrow> jsnum \<Rightarrow> jsnum" where
  "js_div (Fin a) (Fin b) =
     (if b = 0 then (if a = 0 then NaN else if 0 < a then PInf else NInf)
      else to_double (a / b))"
| "js_div (Fin a) PInf = Fin 0"
| "js_div (Fin a) NInf = Fin 0"
| "js_div PInf (Fin b) = (if 0 \<le> b then PInf else NInf)"
| "js_div NInf (Fin b) = (if 0 \<le> b then NInf else PInf)"
| "js_div _ _ = NaN"

fun js_mul :: "jsnum \<Rightarrow> jsnum \<Rightarrow> jsnum" where
  "js_mul (Fin a) (Fin b) = to_double (a * b)"
| "js_mul (Fin a) PInf = (if a = 0 then NaN else if 0 < a then PInf else NInf)"
| "js_mul (Fin a) NInf = (if a = 0 then NaN else if 0 < a then NInf else PInf)"
| "js_mul PInf (Fin b) = (if b = 0 then NaN else if 0 < b then PInf else NInf)"
| "js_mul NInf (Fin b) = (if b = 0 then NaN else if 0 < b then NInf else PInf)"
| "js_mul PInf PInf = PInf"
| "js_mul NInf NInf = PInf"
| "js_mul PInf NInf = NInf"
| "js_mul NInf PInf = NInf"
| "js_mul _ _ = NaN"

fun js_floor :: "jsnum \<Rightarrow> jsnum" where
  "js_floor (Fin a) = Fin (of_int \<lfloor>a\<rfloor>)"
| "js_floor x = x"

fun js_strict_eq :: "jsnum \<Rightarrow> jsnum \<Rightarrow> bool" where
  "js_strict_eq NaN _ = False"
| "js_strict_eq _ NaN = False"
| "js_strict_eq x y = (x = y)"

definition js_number :: "int option \<Rightarrow> jsnum" where
  \<comment> \<open>A property read off a parsed JSON object and used as a number: an integer
      literal is rounded to binary64, an absent property is \<^verbatim>\<open>undefined\<close>, hence \<open>NaN\<close>.\<close>
  "js_number v = (case v of None \<Rightarrow> NaN | Some i \<Rightarrow> to_double (of_int i))"

definition js_shl :: "int \<Rightarrow> nat \<Rightarrow> int" where
  \<comment> \<open>\<^verbatim>\<open>a << n\<close>: the operand as a 32-bit integer, the count modulo 32, the result signed.\<close>
  "js_shl a n = sint (push_bit (n mod 32) (word_of_int a :: 32 word))"

subsection \<open>Strings\<close>

function string_of_nat :: "nat \<Rightarrow> string" where
  "string_of_nat n =
     (if n < 10 then [''0123456789'' ! n]
      else string_of_nat (n div 10) @ [''0123456789'' ! (n mod 10)])"
  by pat_completeness auto
termination
  by (relation "measure id") auto

definition string_of_int :: "int \<Rightarrow> string" where
  \<comment> \<open>An integer inside a template literal.\<close>
  "string_of_int i = (if i < 0 then ''-'' @ string_of_nat (nat (- i)) else string_of_nat (nat i))"

fun split_on :: "char \<Rightarrow> string \<Rightarrow> string list" where
  \<comment> \<open>\<^verbatim>\<open>s.split(c)\<close> for a one-character separator.\<close>
  "split_on c [] = [[]]"
| "split_on c (x # xs) =
     (if x = c then [] # split_on c xs
      else (case split_on c xs of [] \<Rightarrow> [[x]] | p # ps \<Rightarrow> (x # p) # ps))"

definition js_index_str :: "string list \<Rightarrow> nat \<Rightarrow> string" where
  \<comment> \<open>\<^verbatim>\<open>"." + parts[i]\<close>: an index past the end reads \<^verbatim>\<open>undefined\<close>, which the
      concatenation prints.\<close>
  "js_index_str parts i = (if i < length parts then parts ! i else ''undefined'')"

subsection \<open>Data\<close>

type_synonym bytes = "nat list"

text \<open>
  The errors the handlers throw or let through. \<open>AuthenticationError\<close> is the error of
  the auth module for a missing or invalid token; the module is not among the sources
  and the name is the specification's.
\<close>

datatype error =
    BadRequestError string
  | NotFoundError string
  | UserForbiddenError string
  | AuthenticationError string
  | Error string
  | SyntaxError string
  | TypeError string

record Thumbnail =
  data :: bytes
  mediaType :: string

text \<open>
  The type \<^verbatim>\<open>Video\<close> is declared in \<^verbatim>\<open>db/videos\<close>; these are the fields the
  handlers read or write, and the key \<^verbatim>\<open>id\<close> of the row.
\<close>

record Video =
  video_id :: string
  userID :: string
  videoURL :: "string option"
  thumbnailURL :: "string option"

record File_obj =
  fdata :: bytes
  ftype :: string

definition fsize :: "File_obj \<Rightarrow> int" where
  \<comment> \<open>\<^verbatim>\<open>file.size\<close>: the number of bytes.\<close>
  "fsize f = int (length (fdata f))"

datatype form_entry = Absent | Text string | FileEntry File_obj

record request =
  params_videoId :: "string option"
  bearer :: "error + string"
    \<comment> \<open>what \<^verbatim>\<open>validateJWT(getBearerToken(req.headers), cfg.jwtSecret)\<close> does on this
        request: throws, or returns the user's identifier\<close>
  formData :: "error + (string \<Rightarrow> form_entry)"
    \<comment> \<open>what \<^verbatim>\<open>await req.formData()\<close> does on this request: throws (a body that is
        absent or is not form data), or returns the form, read by \<^verbatim>\<open>get(name)\<close>\<close>

record ApiConfig =
  assetsRoot :: string
  port :: string
  s3Bucket :: string

datatype probe_stdout =
    Malformed string
      \<comment> \<open>\<^verbatim>\<open>JSON.parse\<close> throws a SyntaxError with this message\<close>
  | NoFirstStream string
      \<comment> \<open>the text parses but \<^verbatim>\<open>data.streams[0]\<close> cannot be read or destructured:
          a TypeError with this message\<close>
  | FirstStream "int option" "int option"
      \<comment> \<open>\<^verbatim>\<open>width\<close> and \<^verbatim>\<open>height\<close> of \<^verbatim>\<open>data.streams[0]\<close>, absent or an integer\<close>

record probe_proc =
  probe_exited :: int
  probe_out :: probe_stdout
  probe_err :: string

record remux_proc =
  remux_exited :: int
  remux_err :: string
  remux_written :: "bytes option"
    \<comment> \<open>what the process left at its output path, if anything\<close>

record externals =
  randomName :: string
    \<comment> \<open>\<^verbatim>\<open>randomBytes(32).toString("base64url")\<close>\<close>
  pathJoin :: "string \<Rightarrow> string \<Rightarrow> string"
  ffprobe :: "string \<Rightarrow> probe_proc"
  ffmpeg :: "string \<Rightarrow> string \<Rightarrow> remux_proc"
  s3_write :: "error option"
    \<comment> \<open>\<^verbatim>\<open>s3file.write\<close> throws this, or stores the object\<close>
  presign :: "string \<Rightarrow> nat \<Rightarrow> string"

record world =
  db :: "Video list"
  videoThumbnails :: "string \<rightharpoonup> Thumbnail"
  files :: "string \<rightharpoonup> bytes"
  s3 :: "string \<times> string \<rightharpoonup> bytes \<times> string"

datatype response =
    JSON nat Video
  | Body bytes "(string \<times> string) list"

type_synonym outcome = "(error + response) \<times> world"

subsection \<open>The record store\<close>

text \<open>
  The table of videos is a list of rows. A well-formed table has one row per
  identifier; the handlers never add or remove a row.
\<close>

definition getVideo :: "Video list \<Rightarrow> string \<Rightarrow> Video option" where
  \<comment> \<open>Modelled from the spec: \<^verbatim>\<open>getVideo\<close> of \<^verbatim>\<open>db/videos\<close> is not in the sources.
      The record store's \<^verbatim>\<open>getRecord(id) -> AssetRecord | not-found\<close>: the row with
      this identifier, as a fresh object.\<close>
  "getVideo d i = find (\<lambda>r. video_id r = i) d"

definition updateVideo :: "Video list \<Rightarrow> Video \<Rightarrow> Video list" where
  \<comment> \<open>Modelled from the spec: \<^verbatim>\<open>updateVideo\<close> of \<^verbatim>\<open>db/videos\<close> is not in the sources.
      The record store's \<^verbatim>\<open>updateRecord(record) -> void\<close>: the row with the record's
      identifier takes the record's fields.\<close>
  "updateVideo d v = map (\<lambda>r. if video_id r = video_id v then v else r) d"

subsection \<open>Files and the bucket\<close>

definition Bun_write :: "string \<Rightarrow> bytes \<Rightarrow> world \<Rightarrow> world" where
  \<comment> \<open>\<^verbatim>\<open>Bun.write(path, bytes)\<close>: the file is created or replaced.\<close>
  "Bun_write p b w = w\<lparr>files := (files w)(p := Some b)\<rparr>"

definition rm_force :: "string \<Rightarrow> world \<Rightarrow> world" where
  \<comment> \<open>\<^verbatim>\<open>rm(path, { force: true })\<close>: a missing file is not an error.\<close>
  "rm_force p w = w\<lparr>files := (files w)(p := None)\<rparr>"

definition s3file_write :: "string \<Rightarrow> string \<Rightarrow> bytes \<Rightarrow> string \<Rightarrow> world \<Rightarrow> world" where
  \<comment> \<open>\<^verbatim>\<open>s3Client.file(key, { bucket }).write(body, { type })\<close> when it does not throw.\<close>
  "s3file_write bucket key body ty w = w\<lparr>s3 := (s3 w)((bucket, key) := Some (body, ty))\<rparr>"

subsection \<open>Thumbnails\<close>

definition falsy :: "string option \<Rightarrow> bool" where
  \<comment> \<open>\<^verbatim>\<open>!s\<close> for a string that may be \<^verbatim>\<open>undefined\<close>.\<close>
  "falsy s = (case s of None \<Rightarrow> True | Some t \<Rightarrow> t = [])"

definition handlerGetThumbnail :: "request \<Rightarrow> world \<Rightarrow> outcome" where
  "handlerGetThumbnail req w =
     (if falsy (params_videoId req) then (Inl (BadRequestError ''Invalid video ID''), w)
      else let videoId = the (params_videoId req) in
        case getVideo (db w) videoId of
          None \<Rightarrow> (Inl (NotFoundError ''Couldn't find video''), w)
        | Some video \<Rightarrow>
            (case videoThumbnails w videoId of
               None \<Rightarrow> (Inl (NotFoundError ''Thumbnail not found''), w)
             | Some thumbnail \<Rightarrow>
                 (Inr (Body (data thumbnail)
                         [(''Content-Type'', mediaType thumbnail),
                          (''Cache-Control'', ''no-store'')]), w)))"

definition handlerUploadThumbnail :: "ApiConfig \<Rightarrow> externals \<Rightarrow> request \<Rightarrow> world \<Rightarrow> outcome" where
  "handlerUploadThumbnail cfg ext req w =
     (if falsy (params_videoId req) then (Inl (BadRequestError ''Invalid video ID''), w)
      else let videoId = the (params_videoId req) in
        case bearer req of
          Inl e \<Rightarrow> (Inl e, w)
        | Inr user \<Rightarrow>
            (case formData req of
               Inl e \<Rightarrow> (Inl e, w)
             | Inr form \<Rightarrow>
            (let MAX_UPLOAD_SIZE = js_shl 10 20 in
             case form ''thumbnail'' of
               Absent \<Rightarrow> (Inl (BadRequestError ''Thumbnail file missing''), w)
             | Text t \<Rightarrow> (Inl (BadRequestError ''Thumbnail file missing''), w)
             | FileEntry thumbnail \<Rightarrow>
                 if MAX_UPLOAD_SIZE < fsize thumbnail
                 then (Inl (BadRequestError ''Thumbnail too large, max size: 10MB''), w)
                 else let mediaType = ftype thumbnail in
                   if mediaType = []
                   then (Inl (BadRequestError ''Missing Content-Type for thumbnail''), w)
                   else if mediaType \<noteq> ''image/jpeg'' \<and> mediaType \<noteq> ''image/png''
                   then (Inl (BadRequestError ''Invalid Content-Type for thumbnail''), w)
                   else
                     let imageBytes = fdata thumbnail;
                         filetype = ''.'' @ js_index_str (split_on CHR ''/'' mediaType) 1;
                         urlPath = ''/assets/'' @ randomName ext @ filetype;
                         fullPath = pathJoin ext (assetsRoot cfg) (randomName ext @ filetype);
                         w1 = Bun_write fullPath imageBytes w
                     in (case getVideo (db w1) videoId of
                          None \<Rightarrow> (Inl (NotFoundError ''Couldn't find video''), w1)
                        | Some video \<Rightarrow>
                            if userID video \<noteq> user
                            then (Inl (UserForbiddenError ''Not authorized to update this video''), w1)
                            else
                              let video' = video\<lparr>thumbnailURL :=
                                             Some (''http://localhost:'' @ port cfg @ urlPath)\<rparr>;
                                  w2 = w1\<lparr>db := updateVideo (db w1) video'\<rparr>
                              in (Inr (JSON 200 video'), w2)))))"

subsection \<open>Videos\<close>

definition generatePresignedURL :: "externals \<Rightarrow> string \<Rightarrow> nat \<Rightarrow> string" where
  "generatePresignedURL ext key expireTime = presign ext key expireTime"

definition dbVideoToSignedVideo :: "externals \<Rightarrow> Video \<Rightarrow> Video" where
  \<comment> \<open>The argument object is updated in place and returned; \<^verbatim>\<open>video.videoURL!\<close> is
      read as the key. An absent \<^verbatim>\<open>videoURL\<close> does not occur where the handler calls it.\<close>
  "dbVideoToSignedVideo ext video =
     video\<lparr>videoURL := Some (generatePresignedURL ext (the (videoURL video)) 360)\<rparr>"

definition getVideoAspectRatio :: "externals \<Rightarrow> string \<Rightarrow> error + string" where
  "getVideoAspectRatio ext filePath =
     (let proc = ffprobe ext filePath;
          stderrText = probe_err proc
      in if probe_exited proc \<noteq> 0 then Inl (Error stderrText)
         else case probe_out proc of
           Malformed msg \<Rightarrow> Inl (SyntaxError msg)
         | NoFirstStream msg \<Rightarrow> Inl (TypeError msg)
         | FirstStream width height \<Rightarrow>
             (let landscape = js_floor (js_mul (js_div (Fin 16) (Fin 9)) (Fin 100));
                  portrait = js_floor (js_mul (js_div (Fin 9) (Fin 16)) (Fin 100));
                  aspect = js_floor (js_mul (js_div (js_number width) (js_number height)) (Fin 100))
              in if js_strict_eq aspect landscape then Inr ''landscape''
                 else if js_strict_eq aspect portrait then Inr ''portrait''
                 else Inr ''other''))"

definition processVideoForFastStart :: "externals \<Rightarrow> string \<Rightarrow> world \<Rightarrow> (error + string) \<times> world" where
  "processVideoForFastStart ext inputFilePath w =
     (let outputFilePath = inputFilePath @ ''.processed'';
          proc = ffmpeg ext inputFilePath outputFilePath;
          w1 = (case remux_written proc of
                  None \<Rightarrow> w
                | Some b \<Rightarrow> Bun_write outputFilePath b w);
          errorText = remux_err proc;
          exitCode = remux_exited proc
      in if exitCode \<noteq> 0
         then (Inl (Error (''Command failed with code '' @ string_of_int exitCode @ '': '' @ errorText)), w1)
         else (Inr outputFilePath, w1))"

definition handlerUploadVideo :: "ApiConfig \<Rightarrow> externals \<Rightarrow> request \<Rightarrow> world \<Rightarrow> outcome" where
  "handlerUploadVideo cfg ext req w =
     (if falsy (params_videoId req) then (Inl (BadRequestError ''Invalid video ID''), w)
      else let videoId = the (params_videoId req) in
        case bearer req of
          Inl e \<Rightarrow> (Inl e, w)
        | Inr user \<Rightarrow>
            (case formData req of
               Inl e \<Rightarrow> (Inl e, w)
             | Inr form \<Rightarrow>
            (let MAX_UPLOAD_SIZE = js_shl 1 30 in
             case form ''video'' of
               Absent \<Rightarrow> (Inl (BadRequestError ''Video file missing''), w)
             | Text t \<Rightarrow> (Inl (BadRequestError ''Video file missing''), w)
             | FileEntry video \<Rightarrow>
                 if MAX_UPLOAD_SIZE < fsize video
                 then (Inl (BadRequestError ''Video too large, max size: 1GB''), w)
                 else let mediaType = ftype video; videoType = ''video/mp4'' in
                   if mediaType = []
                   then (Inl (BadRequestError ''Missing Content-Type for video''), w)
                   else if mediaType \<noteq> videoType
                   then (Inl (BadRequestError ''Invalid Content-Type for video, only MP4 is allowed''), w)
                   else
                     (case getVideo (db w) videoId of
                       None \<Rightarrow> (Inl (NotFoundError ''Couldn't find video''), w)
                     | Some videoTemp \<Rightarrow>
                         if userID videoTemp \<noteq> user
                         then (Inl (UserForbiddenError ''Not authorized to update this video''), w)
                         else
                           let tempFilePath = pathJoin ext ''/tmp'' (videoId @ ''.mp4'');
                               videoBytes = fdata video;
                               w1 = Bun_write tempFilePath videoBytes w
                           in (case getVideoAspectRatio ext tempFilePath of
                                Inl e \<Rightarrow> (Inl e, w1)
                              | Inr aspectRatio \<Rightarrow>
                                  (let key = aspectRatio @ ''/'' @ videoId @ ''.mp4'';
                                       url = key;
                                       videoTemp1 = videoTemp\<lparr>videoURL := Some url\<rparr>
                                   in (case processVideoForFastStart ext tempFilePath w1 of
                                        (Inl e, w2) \<Rightarrow> (Inl e, w2)
                                      | (Inr processedVid, w2) \<Rightarrow>
                                          (case files w2 processedVid of
                                             None \<Rightarrow> (Inl (Error ''Processed file was not created''), w2)
                                           | Some body \<Rightarrow>
                                               (case s3_write ext of
                                                  Some e \<Rightarrow> (Inl e, w2)
                                                | None \<Rightarrow>
                                                    let w3 = s3file_write (s3Bucket cfg) key body videoType w2;
                                                        videoData = dbVideoToSignedVideo ext videoTemp1;
                                                        w4 = w3\<lparr>db := updateVideo (db w3) videoData\<rparr>;
                                                        w5 = rm_force tempFilePath w4
                                                    in (Inr (JSON 200 videoData), w5))))))))))"

subsection \<open>Vocabulary of the properties\<close>

definition aspect_of :: "jsnum \<Rightarrow> jsnum \<Rightarrow> jsnum" where
  \<comment> \<open>Shorthand for the expression the source evaluates three times,
      \<^verbatim>\<open>Math.floor((a / b) * 100)\<close>, with the operations of the language.\<close>
  "aspect_of a b = js_floor (js_mul (js_div a b) (Fin 100))"



definition form_field :: "request \<Rightarrow> string \<Rightarrow> form_entry" where
  \<comment> \<open>The payload a request carries under a field name; a body that cannot be read
      as a form carries none.\<close>
  "form_field req name = (case formData req of Inl e \<Rightarrow> Absent | Inr form \<Rightarrow> form name)"

definition storage_key :: "string \<Rightarrow> string \<Rightarrow> string" where
  \<comment> \<open>The key format \<^verbatim>\<open>{classification}/{videoId}.mp4\<close>.\<close>
  "storage_key classification videoId = classification @ ''/'' @ videoId @ ''.mp4''"

definition video_payload_invalid :: "form_entry \<Rightarrow> bool" where
  \<comment> \<open>Missing, larger than 1 GiB, or of a media type other than \<^verbatim>\<open>video/mp4\<close>.\<close>
  "video_payload_invalid e =
     (case e of
        FileEntry f \<Rightarrow> 2 ^ 30 < fsize f \<or> ftype f \<noteq> ''video/mp4''
      | _ \<Rightarrow> True)"

definition thumbnail_payload_invalid :: "form_entry \<Rightarrow> bool" where
  \<comment> \<open>Missing, larger than 10 MiB, or of a media type other than \<^verbatim>\<open>image/jpeg\<close>
      and \<^verbatim>\<open>image/png\<close>.\<close>
  "thumbnail_payload_invalid e =
     (case e of
        FileEntry f \<Rightarrow> 10 * 2 ^ 20 < fsize f \<or> ftype f \<notin> {''image/jpeg'', ''image/png''}
      | _ \<Rightarrow> True)"

definition video_upload_accepted ::
  "request \<Rightarrow> world \<Rightarrow> string \<Rightarrow> File_obj \<Rightarrow> Video \<Rightarrow> bool" where
  \<comment> \<open>The request names a video, carries a valid token and a valid payload, and the
      video's row exists and belongs to the requester: the handler goes on to write the
      scratch file.\<close>
  "video_upload_accepted req w videoId f row =
     (params_videoId req = Some videoId \<and> videoId \<noteq> [] \<and>
      bearer req = Inr (userID row) \<and>
      form_field req ''video'' = FileEntry f \<and> \<not> video_payload_invalid (FileEntry f) \<and>
      getVideo (db w) videoId = Some row)"

definition thumbnail_upload_valid :: "request \<Rightarrow> string \<Rightarrow> string \<Rightarrow> File_obj \<Rightarrow> bool" where
  \<comment> \<open>The request names a video, carries a valid token and a valid thumbnail.\<close>
  "thumbnail_upload_valid req videoId user f =
     (params_videoId req = Some videoId \<and> videoId \<noteq> [] \<and>
      bearer req = Inr user \<and>
      form_field req ''thumbnail'' = FileEntry f \<and> \<not> thumbnail_payload_invalid (FileEntry f))"

definition scratch_path :: "externals \<Rightarrow> string \<Rightarrow> string" where
  \<comment> \<open>\<^verbatim>\<open>tempFilePath\<close> of the video handler.\<close>
  "scratch_path ext videoId = pathJoin ext ''/tmp'' (videoId @ ''.mp4'')"

subsection \<open>Example requests\<close>

definition ex_cfg :: ApiConfig where
  "ex_cfg = \<lparr>assetsRoot = ''/srv/tubely/assets'', port = ''8091'', s3Bucket = ''tubely''\<rparr>"

definition ex_row :: Video where
  "ex_row = \<lparr>video_id = ''abc'', userID = ''alice'', videoURL = None, thumbnailURL = None\<rparr>"

definition ex_world :: world where
  "ex_world = \<lparr>db = [ex_row], videoThumbnails = Map.empty, files = Map.empty, s3 = Map.empty\<rparr>"

definition ex_mp4 :: File_obj where
  "ex_mp4 = \<lparr>fdata = [0, 0, 0, 24], ftype = ''video/mp4''\<rparr>"

definition ex_png :: File_obj where
  "ex_png = \<lparr>fdata = [137, 80, 78, 71], ftype = ''image/png''\<rparr>"

definition ex_video_req :: "File_obj \<Rightarrow> request" where
  "ex_video_req f =
     \<lparr>params_videoId = Some ''abc'', bearer = Inr ''alice'',
      formData = Inr (\<lambda>name. if name = ''video'' then FileEntry f else Absent)\<rparr>"

definition ex_thumbnail_req :: "string \<Rightarrow> File_obj \<Rightarrow> request" where
  "ex_thumbnail_req user f =
     \<lparr>params_videoId = Some ''abc'', bearer = Inr user,
      formData = Inr (\<lambda>name. if name = ''thumbnail'' then FileEntry f else Absent)\<rparr>"

definition ex_get_req :: "string \<Rightarrow> request" where
  "ex_get_req videoId =
     \<lparr>params_videoId = Some videoId, bearer = Inl (AuthenticationError ''Invalid token''),
      formData = Inr (\<lambda>name. Absent)\<rparr>"

definition ex_bodyless_req :: request where
  "ex_bodyless_req =
     \<lparr>params_videoId = Some ''abc'', bearer = Inr ''alice'',
      formData = Inl (TypeError ''FormData parse error: missing final boundary'')\<rparr>"

definition ex_unauthenticated_req :: "string \<Rightarrow> File_obj \<Rightarrow> request" where
  "ex_unauthenticated_req name f =
     \<lparr>params_videoId = Some ''abc'', bearer = Inl (AuthenticationError ''Invalid token''),
      formData = Inr (\<lambda>n. if n = name then FileEntry f else Absent)\<rparr>"

definition probe_ok :: "int option \<Rightarrow> int option \<Rightarrow> probe_proc" where
  "probe_ok width height =
     \<lparr>probe_exited = 0, probe_out = FirstStream width height, probe_err = []\<rparr>"

definition remux_ok :: "bytes option \<Rightarrow> remux_proc" where
  "remux_ok written = \<lparr>remux_exited = 0, remux_err = [], remux_written = written\<rparr>"

text \<open>
  The paths of the examples are absolute and have no empty, \<^verbatim>\<open>.\<close> or \<^verbatim>\<open>..\<close>
  segment; on such arguments \<^verbatim>\<open>path.join\<close> puts a slash between the two.
\<close>

definition ex_ext :: "probe_proc \<Rightarrow> remux_proc \<Rightarrow> externals" where
  "ex_ext probe remux =
     \<lparr>randomName = ''Zm9v'',
      pathJoin = (\<lambda>a b. a @ ''/'' @ b),
      ffprobe = (\<lambda>filePath. probe),
      ffmpeg = (\<lambda>inputFilePath outputFilePath. remux),
      s3_write = None,
      presign = (\<lambda>key expiresIn. ''https://tubely.s3.example/'' @ key @ ''?expires='' @ string_of_nat expiresIn)\<rparr>"

declare bitlen.simps [simp del] string_of_nat.simps [simp del]

section \<open>Properties\<close>

subsection \<open>Constants, the record store and the examples\<close>

lemma MAX_UPLOAD_SIZE_video: "js_shl 1 30 = 2 ^ 30"
  by (simp add: js_shl_def)

lemma MAX_UPLOAD_SIZE_thumbnail: "js_shl 10 20 = 10 * 2 ^ 20"
  by (simp add: js_shl_def)

lemma falsy_Some: "falsy (Some v) = (v = [])"
  by (simp add: falsy_def)

lemma form_field_FileEntry:
  assumes "form_field req name = FileEntry f"
  obtains form where "formData req = Inr form" and "form name = FileEntry f"
  using assms by (cases "formData req") (simp_all add: form_field_def)

lemma getVideo_updateVideo:
  "getVideo d i = Some row \<Longrightarrow> video_id v = i \<Longrightarrow> getVideo (updateVideo d v) i = Some v"
  unfolding getVideo_def updateVideo_def
  by (induction d) (auto split: if_splits)

lemma getVideo_video_id: "getVideo d i = Some row \<Longrightarrow> video_id row = i"
  unfolding getVideo_def by (induction d) (auto split: if_splits)

lemma string_of_int_1: "string_of_int 1 = ''1''"
  by code_simp

lemma ex_accepted: "video_upload_accepted (ex_video_req ex_mp4) ex_world ''abc'' ex_mp4 ex_row"
  by (simp add: video_upload_accepted_def ex_video_req_def ex_world_def ex_row_def ex_mp4_def
      video_payload_invalid_def fsize_def getVideo_def form_field_def)

lemma ex_scratch_path: "scratch_path (ex_ext probe remux) videoId = ''/tmp/'' @ videoId @ ''.mp4''"
  by (simp add: scratch_path_def ex_ext_def)

lemma ex_ffprobe: "ffprobe (ex_ext probe remux) p = probe"
  by (simp add: ex_ext_def)

lemma ex_ffmpeg: "ffmpeg (ex_ext probe remux) p q = remux"
  by (simp add: ex_ext_def)

subsection \<open>The rounding\<close>
















subsection \<open>Numbers and the classification\<close>

text \<open>
  The rounding agrees with binary64 on the usual probes: one tenth, three tenths
  computed as \<open>0.1 * 3\<close>, the first integer that is not representable, and a quotient
  whose product with 100 falls just below an integer (\<open>57 / 100 * 100\<close> is
  \<open>56.99999999999999\<close>, so its floor is 56).
\<close>

lemma to_double_tenth: "to_double (1 / 10) = Fin (3602879701896397 / 36028797018963968)"
  by code_simp

lemma js_mul_three_tenths:
  "js_mul (to_double (1 / 10)) (Fin 3) = Fin (1351079888211149 / 4503599627370496)"
  by code_simp

lemma to_double_not_representable: "to_double 9007199254740993 = Fin 9007199254740992"
  by code_simp

lemma aspect_of_57_100: "aspect_of (js_number (Some 57)) (js_number (Some 100)) = Fin 56"
  by code_simp

lemma js_strict_eq_Fin: "js_strict_eq x (Fin q) = (x = Fin q)"
  by (cases x) simp_all

lemma js_div_NaN: "js_div NaN y = NaN" "js_div x NaN = NaN"
  by (cases x; simp)+

lemma aspect_of_missing: "aspect_of NaN y = NaN" "aspect_of x NaN = NaN"
  by (simp_all add: aspect_of_def js_div_NaN)

lemma landscape_target: "aspect_of (Fin 16) (Fin 9) = Fin 177"
  by code_simp

lemma portrait_target: "aspect_of (Fin 9) (Fin 16) = Fin 56"
  by code_simp

lemma aspect_of_1920_1080: "aspect_of (js_number (Some 1920)) (js_number (Some 1080)) = Fin 177"
  by code_simp

lemma aspect_of_1080_1920: "aspect_of (js_number (Some 1080)) (js_number (Some 1920)) = Fin 56"
  by code_simp

lemma aspect_of_1000_1000: "aspect_of (js_number (Some 1000)) (js_number (Some 1000)) = Fin 100"
  by code_simp

lemma getVideoAspectRatio_FirstStream:
  assumes "probe_exited (ffprobe ext filePath) = 0"
    and "probe_out (ffprobe ext filePath) = FirstStream width height"
  shows "getVideoAspectRatio ext filePath =
     Inr (if aspect_of (js_number width) (js_number height) = Fin 177 then ''landscape''
          else if aspect_of (js_number width) (js_number height) = Fin 56 then ''portrait''
          else ''other'')"
proof -
  have l: "js_floor (js_mul (js_div (Fin 16) (Fin 9)) (Fin 100)) = Fin 177"
    using landscape_target by (simp add: aspect_of_def)
  have p: "js_floor (js_mul (js_div (Fin 9) (Fin 16)) (Fin 100)) = Fin 56"
    using portrait_target by (simp add: aspect_of_def)
  show ?thesis
    unfolding getVideoAspectRatio_def Let_def l p
    using assms by (simp add: js_strict_eq_Fin aspect_of_def)
qed

lemma getVideoAspectRatio_missing_dimension:
  assumes "probe_exited (ffprobe ext filePath) = 0"
    and "probe_out (ffprobe ext filePath) = FirstStream width height"
    and "width = None \<or> height = None"
  shows "getVideoAspectRatio ext filePath = Inr ''other''"
  using getVideoAspectRatio_FirstStream [OF assms(1,2)] assms(3)
  by (auto simp: js_number_def aspect_of_missing)

lemma ex_landscape:
  "getVideoAspectRatio (ex_ext (probe_ok (Some 1920) (Some 1080)) remux) p = Inr ''landscape''"
  using getVideoAspectRatio_FirstStream
    [of "ex_ext (probe_ok (Some 1920) (Some 1080)) remux" p "Some 1920" "Some 1080"]
  by (simp add: ex_ffprobe probe_ok_def aspect_of_1920_1080)














subsection \<open>The paths of the video handler\<close>

lemma upload_video_rejects:
  assumes "video_payload_invalid (form_field req ''video'')"
  shows "snd (handlerUploadVideo cfg ext req w) = w"
    and "isl (fst (handlerUploadVideo cfg ext req w))"
    and "bearer req = Inr user \<Longrightarrow> formData req = Inr form \<Longrightarrow>
           \<exists>m. fst (handlerUploadVideo cfg ext req w) = Inl (BadRequestError m)"
  using assms
  by (auto simp: handlerUploadVideo_def video_payload_invalid_def MAX_UPLOAD_SIZE_video Let_def
      form_field_def split: form_entry.splits sum.splits)

lemma upload_video_token_first:
  assumes "\<not> falsy (params_videoId req)"
  shows "bearer req = Inl e \<Longrightarrow> handlerUploadVideo cfg ext req w = (Inl e, w)"
    and "bearer req = Inr user \<Longrightarrow> formData req = Inl e \<Longrightarrow>
           handlerUploadVideo cfg ext req w = (Inl e, w)"
  using assms by (simp_all add: handlerUploadVideo_def Let_def)

lemma upload_video_forbidden:
  assumes "params_videoId req = Some videoId" and "videoId \<noteq> []"
    and "bearer req = Inr user"
    and "form_field req ''video'' = FileEntry f" and "\<not> video_payload_invalid (FileEntry f)"
    and "getVideo (db w) videoId = Some row" and "userID row \<noteq> user"
  shows "handlerUploadVideo cfg ext req w =
           (Inl (UserForbiddenError ''Not authorized to update this video''), w)"
proof -
  obtain form where "formData req = Inr form" and "form ''video'' = FileEntry f"
    using assms(4) by (rule form_field_FileEntry)
  then show ?thesis
    using assms
    by (simp add: handlerUploadVideo_def video_payload_invalid_def falsy_def
        MAX_UPLOAD_SIZE_video Let_def)
qed

lemma upload_video_accepted:
  assumes "video_upload_accepted req w videoId f row"
  shows "handlerUploadVideo cfg ext req w =
     (let tempFilePath = scratch_path ext videoId;
          w1 = Bun_write tempFilePath (fdata f) w
      in case getVideoAspectRatio ext tempFilePath of
           Inl e \<Rightarrow> (Inl e, w1)
         | Inr aspectRatio \<Rightarrow>
             (case processVideoForFastStart ext tempFilePath w1 of
                (Inl e, w2) \<Rightarrow> (Inl e, w2)
              | (Inr processedVid, w2) \<Rightarrow>
                  (case files w2 processedVid of
                     None \<Rightarrow> (Inl (Error ''Processed file was not created''), w2)
                   | Some body \<Rightarrow>
                       (case s3_write ext of
                          Some e \<Rightarrow> (Inl e, w2)
                        | None \<Rightarrow>
                            let key = storage_key aspectRatio videoId;
                                videoData = row\<lparr>videoURL := Some (presign ext key 360)\<rparr>;
                                w3 = s3file_write (s3Bucket cfg) key body ''video/mp4'' w2
                            in (Inr (JSON 200 videoData),
                                rm_force tempFilePath (w3\<lparr>db := updateVideo (db w3) videoData\<rparr>))))))"
proof -
  have "form_field req ''video'' = FileEntry f"
    using assms by (simp add: video_upload_accepted_def)
  then obtain form where "formData req = Inr form" and "form ''video'' = FileEntry f"
    by (rule form_field_FileEntry)
  then show ?thesis
    using assms
    by (simp add: handlerUploadVideo_def video_upload_accepted_def video_payload_invalid_def
        falsy_def MAX_UPLOAD_SIZE_video Let_def scratch_path_def storage_key_def
        dbVideoToSignedVideo_def generatePresignedURL_def
        split: sum.split prod.split option.split)
qed

lemma upload_video_succeeds_accepted:
  assumes "handlerUploadVideo cfg ext req w = (Inr r, w')"
    and "params_videoId req = Some videoId"
  shows "\<exists>f row. video_upload_accepted req w videoId f row"
  using assms
  by (auto simp: handlerUploadVideo_def video_upload_accepted_def video_payload_invalid_def
      falsy_def MAX_UPLOAD_SIZE_video Let_def form_field_def
      split: form_entry.splits sum.splits if_splits option.splits)

lemma upload_video_probe_fails:
  assumes "video_upload_accepted req w videoId f row"
    and "getVideoAspectRatio ext (scratch_path ext videoId) = Inl e"
  shows "handlerUploadVideo cfg ext req w =
           (Inl e, Bun_write (scratch_path ext videoId) (fdata f) w)"
  unfolding upload_video_accepted [OF assms(1)] Let_def assms(2)
  by simp

lemma processVideoForFastStart_result:
  "fst (processVideoForFastStart ext p w0) =
     (if remux_exited (ffmpeg ext p (p @ ''.processed'')) = 0 then Inr (p @ ''.processed'')
      else Inl (Error (''Command failed with code ''
                       @ string_of_int (remux_exited (ffmpeg ext p (p @ ''.processed'')))
                       @ '': '' @ remux_err (ffmpeg ext p (p @ ''.processed'')))))"
  by (simp add: processVideoForFastStart_def Let_def)

lemma upload_video_remux_fails:
  assumes "video_upload_accepted req w videoId f row"
    and "getVideoAspectRatio ext (scratch_path ext videoId) = Inr c"
    and "remux_exited (ffmpeg ext (scratch_path ext videoId) (scratch_path ext videoId @ ''.processed'')) \<noteq> 0"
  shows "fst (handlerUploadVideo cfg ext req w) =
           Inl (Error (''Command failed with code ''
             @ string_of_int (remux_exited (ffmpeg ext (scratch_path ext videoId)
                                              (scratch_path ext videoId @ ''.processed'')))
             @ '': '' @ remux_err (ffmpeg ext (scratch_path ext videoId)
                                              (scratch_path ext videoId @ ''.processed''))))"
    and "s3 (snd (handlerUploadVideo cfg ext req w)) = s3 w"
    and "db (snd (handlerUploadVideo cfg ext req w)) = db w"
  unfolding upload_video_accepted [OF assms(1)] Let_def assms(2)
  using assms(3)
  by (simp_all add: processVideoForFastStart_def Let_def Bun_write_def split: option.split)

lemma upload_video_no_output:
  assumes "video_upload_accepted req w videoId f row"
    and "getVideoAspectRatio ext (scratch_path ext videoId) = Inr c"
    and "remux_exited (ffmpeg ext (scratch_path ext videoId) (scratch_path ext videoId @ ''.processed'')) = 0"
    and "remux_written (ffmpeg ext (scratch_path ext videoId) (scratch_path ext videoId @ ''.processed'')) = None"
    and "files w (scratch_path ext videoId @ ''.processed'') = None"
  shows "fst (handlerUploadVideo cfg ext req w) = Inl (Error ''Processed file was not created'')"
    and "s3 (snd (handlerUploadVideo cfg ext req w)) = s3 w"
    and "db (snd (handlerUploadVideo cfg ext req w)) = db w"
  unfolding upload_video_accepted [OF assms(1)] Let_def assms(2)
  using assms(3,4,5)
  by (simp_all add: processVideoForFastStart_def Let_def Bun_write_def)

lemma upload_video_output_present:
  assumes "video_upload_accepted req w videoId f row"
    and "getVideoAspectRatio ext (scratch_path ext videoId) = Inr c"
    and "remux_exited (ffmpeg ext (scratch_path ext videoId) (scratch_path ext videoId @ ''.processed'')) = 0"
    and "remux_written (ffmpeg ext (scratch_path ext videoId) (scratch_path ext videoId @ ''.processed'')) = Some body"
    and "s3_write ext = None"
  shows "\<not> isl (fst (handlerUploadVideo cfg ext req w))"
    and "s3 (snd (handlerUploadVideo cfg ext req w)) (s3Bucket cfg, storage_key c videoId)
           = Some (body, ''video/mp4'')"
  unfolding upload_video_accepted [OF assms(1)] Let_def assms(2)
  using assms(3,4,5)
  by (simp_all add: processVideoForFastStart_def Let_def Bun_write_def s3file_write_def
      rm_force_def)

lemma upload_video_stale_output:
  assumes "video_upload_accepted req w videoId f row"
    and "getVideoAspectRatio ext (scratch_path ext videoId) = Inr c"
    and "remux_exited (ffmpeg ext (scratch_path ext videoId) (scratch_path ext videoId @ ''.processed'')) = 0"
    and "remux_written (ffmpeg ext (scratch_path ext videoId) (scratch_path ext videoId @ ''.processed'')) = None"
    and "files w (scratch_path ext videoId @ ''.processed'') = Some body"
    and "s3_write ext = None"
  shows "\<not> isl (fst (handlerUploadVideo cfg ext req w))"
    and "s3 (snd (handlerUploadVideo cfg ext req w)) (s3Bucket cfg, storage_key c videoId)
           = Some (body, ''video/mp4'')"
  unfolding upload_video_accepted [OF assms(1)] Let_def assms(2)
  using assms(3,4,5,6)
  by (simp_all add: processVideoForFastStart_def Let_def Bun_write_def s3file_write_def
      rm_force_def)

lemma upload_video_persists_signed_url:
  assumes "handlerUploadVideo cfg ext req w = (Inr r, w')"
    and "params_videoId req = Some videoId"
    and "getVideoAspectRatio ext (scratch_path ext videoId) = Inr classification"
  shows "map_option videoURL (getVideo (db w') videoId) =
           Some (Some (presign ext (storage_key classification videoId) 360))"
proof -
  obtain f row where acc: "video_upload_accepted req w videoId f row"
    using upload_video_succeeds_accepted [OF assms(1,2)] by blast
  then have row: "getVideo (db w) videoId = Some row"
    by (simp add: video_upload_accepted_def)
  let ?v = "row\<lparr>videoURL := Some (presign ext (storage_key classification videoId) 360)\<rparr>"
  have id: "video_id ?v = videoId"
    using getVideo_video_id [OF row] by simp
  have "db w' = updateVideo (db w) ?v"
    using assms(1) unfolding upload_video_accepted [OF acc] Let_def assms(3)
    by (auto simp: processVideoForFastStart_def Let_def s3file_write_def rm_force_def
        Bun_write_def split: option.splits if_splits)
  then show ?thesis
    using getVideo_updateVideo [OF row id] by simp
qed

subsection \<open>The paths of the thumbnail handler\<close>

lemma upload_thumbnail_rejects:
  assumes "thumbnail_payload_invalid (form_field req ''thumbnail'')"
  shows "snd (handlerUploadThumbnail cfg ext req w) = w"
    and "isl (fst (handlerUploadThumbnail cfg ext req w))"
    and "bearer req = Inr user \<Longrightarrow> formData req = Inr form \<Longrightarrow>
           \<exists>m. fst (handlerUploadThumbnail cfg ext req w) = Inl (BadRequestError m)"
  using assms
  by (auto simp: handlerUploadThumbnail_def thumbnail_payload_invalid_def
      MAX_UPLOAD_SIZE_thumbnail Let_def form_field_def split: form_entry.splits sum.splits)

lemma upload_thumbnail_token_first:
  assumes "\<not> falsy (params_videoId req)"
  shows "bearer req = Inl e \<Longrightarrow> handlerUploadThumbnail cfg ext req w = (Inl e, w)"
    and "bearer req = Inr user \<Longrightarrow> formData req = Inl e \<Longrightarrow>
           handlerUploadThumbnail cfg ext req w = (Inl e, w)"
  using assms by (simp_all add: handlerUploadThumbnail_def Let_def)

lemma upload_thumbnail_forbidden:
  assumes "thumbnail_upload_valid req videoId user f"
    and "getVideo (db w) videoId = Some row" and "userID row \<noteq> user"
  shows "handlerUploadThumbnail cfg ext req w =
           (Inl (UserForbiddenError ''Not authorized to update this video''),
            Bun_write (pathJoin ext (assetsRoot cfg)
                         (randomName ext @ ''.'' @ js_index_str (split_on CHR ''/'' (ftype f)) 1))
              (fdata f) w)"
proof -
  have "form_field req ''thumbnail'' = FileEntry f"
    using assms by (simp add: thumbnail_upload_valid_def)
  then obtain form where "formData req = Inr form" and "form ''thumbnail'' = FileEntry f"
    by (rule form_field_FileEntry)
  then show ?thesis
    using assms
    by (auto simp: handlerUploadThumbnail_def thumbnail_upload_valid_def
        thumbnail_payload_invalid_def falsy_def MAX_UPLOAD_SIZE_thumbnail Let_def Bun_write_def)
qed




subsection \<open>The persisted video location\<close>

text \<open>
  Claim C1. The claim wants the row written by \<^verbatim>\<open>updateVideo\<close> to carry the storage key.
  The handler writes the row after \<^verbatim>\<open>dbVideoToSignedVideo\<close> has replaced the key by
  the signed URL in the same object: in the example the object is stored in the bucket
  under \<open>landscape/abc.mp4\<close>, and the row then holds the signed URL and not that key.
  The lemma \<open>upload_video_persists_signed_url\<close> shows this for every successful upload.
\<close>

theorem persisted_record_holds_signed_url:
  "s3 (snd (handlerUploadVideo ex_cfg (ex_ext (probe_ok (Some 1920) (Some 1080)) (remux_ok (Some [7, 7])))
              (ex_video_req ex_mp4) ex_world)) (''tubely'', ''landscape/abc.mp4'')
     = Some ([7, 7], ''video/mp4'')
   \<and> map_option videoURL
        (getVideo (db (snd (handlerUploadVideo ex_cfg
              (ex_ext (probe_ok (Some 1920) (Some 1080)) (remux_ok (Some [7, 7])))
              (ex_video_req ex_mp4) ex_world))) ''abc'')
     = Some (Some ''https://tubely.s3.example/landscape/abc.mp4?expires=360'')
   \<and> map_option videoURL
        (getVideo (db (snd (handlerUploadVideo ex_cfg
              (ex_ext (probe_ok (Some 1920) (Some 1080)) (remux_ok (Some [7, 7])))
              (ex_video_req ex_mp4) ex_world))) ''abc'')
     \<noteq> Some (Some ''landscape/abc.mp4'')"
  by code_simp

subsection \<open>The thumbnail registry\<close>




subsection \<open>Uploads by somebody other than the owner\<close>

text \<open>
  Claim C3. The claim wants an upload by somebody other than the owner to fail without
  any write. The video handler does that (\<open>upload_video_forbidden\<close>); the thumbnail
  handler writes the file under the assets root first and looks the row up afterwards
  (\<open>upload_thumbnail_forbidden\<close>): in the example the request of \<open>mallory\<close> for the
  video of \<open>alice\<close> is refused and the file is there.
\<close>

theorem thumbnail_written_before_ownership_check:
  "fst (handlerUploadThumbnail ex_cfg (ex_ext (probe_ok None None) (remux_ok None))
          (ex_thumbnail_req ''mallory'' ex_png) ex_world)
     = Inl (UserForbiddenError ''Not authorized to update this video'')
   \<and> files ex_world ''/srv/tubely/assets/Zm9v.png'' = None
   \<and> files (snd (handlerUploadThumbnail ex_cfg (ex_ext (probe_ok None None) (remux_ok None))
          (ex_thumbnail_req ''mallory'' ex_png) ex_world)) ''/srv/tubely/assets/Zm9v.png''
     = Some [137, 80, 78, 71]"
  by code_simp

subsection \<open>Scratch files\<close>

text \<open>
  Claim C4. The claim wants neither the scratch file nor the processed file to remain
  once the request is over. The handler removes the scratch file at the end of the
  successful path only, and never removes the processed file: after a failed probe the
  scratch file remains, after a failed remux both remain, after a success the processed
  file remains.
\<close>

theorem scratch_files_left_behind:
  "fst (handlerUploadVideo ex_cfg
          (ex_ext \<lparr>probe_exited = 1, probe_out = Malformed [], probe_err = ''moov atom not found''\<rparr>
             (remux_ok None))
          (ex_video_req ex_mp4) ex_world)
     = Inl (Error ''moov atom not found'')
   \<and> files (snd (handlerUploadVideo ex_cfg
          (ex_ext \<lparr>probe_exited = 1, probe_out = Malformed [], probe_err = ''moov atom not found''\<rparr>
             (remux_ok None))
          (ex_video_req ex_mp4) ex_world)) ''/tmp/abc.mp4''
     = Some [0, 0, 0, 24]
   \<and> isl (fst (handlerUploadVideo ex_cfg
          (ex_ext (probe_ok (Some 1920) (Some 1080))
             \<lparr>remux_exited = 1, remux_err = ''Conversion failed!'', remux_written = Some [7]\<rparr>)
          (ex_video_req ex_mp4) ex_world))
   \<and> files (snd (handlerUploadVideo ex_cfg
          (ex_ext (probe_ok (Some 1920) (Some 1080))
             \<lparr>remux_exited = 1, remux_err = ''Conversion failed!'', remux_written = Some [7]\<rparr>)
          (ex_video_req ex_mp4) ex_world)) ''/tmp/abc.mp4''
     = Some [0, 0, 0, 24]
   \<and> files (snd (handlerUploadVideo ex_cfg
          (ex_ext (probe_ok (Some 1920) (Some 1080))
             \<lparr>remux_exited = 1, remux_err = ''Conversion failed!'', remux_written = Some [7]\<rparr>)
          (ex_video_req ex_mp4) ex_world)) ''/tmp/abc.mp4.processed''
     = Some [7]
   \<and> \<not> isl (fst (handlerUploadVideo ex_cfg
          (ex_ext (probe_ok (Some 1920) (Some 1080)) (remux_ok (Some [7, 7])))
          (ex_video_req ex_mp4) ex_world))
   \<and> files (snd (handlerUploadVideo ex_cfg
          (ex_ext (probe_ok (Some 1920) (Some 1080)) (remux_ok (Some [7, 7])))
          (ex_video_req ex_mp4) ex_world)) ''/tmp/abc.mp4''
     = None
   \<and> files (snd (handlerUploadVideo ex_cfg
          (ex_ext (probe_ok (Some 1920) (Some 1080)) (remux_ok (Some [7, 7])))
          (ex_video_req ex_mp4) ex_world)) ''/tmp/abc.mp4.processed''
     = Some [7, 7]"
  by code_simp

subsection \<open>The remuxer\<close>

text \<open>
  Claim C5, as stated, fails: the handler checks that the processed file exists, not
  that it is non-empty. An empty output of a remux that reported success is uploaded.
\<close>

theorem empty_processed_file_uploaded:
  "files (snd (handlerUploadVideo ex_cfg
          (ex_ext (probe_ok (Some 1920) (Some 1080)) (remux_ok (Some [])))
          (ex_video_req ex_mp4) ex_world)) ''/tmp/abc.mp4.processed''
     = Some []
   \<and> fst (handlerUploadVideo ex_cfg
          (ex_ext (probe_ok (Some 1920) (Some 1080)) (remux_ok (Some [])))
          (ex_video_req ex_mp4) ex_world)
     = Inr (JSON 200 (ex_row\<lparr>videoURL := Some ''https://tubely.s3.example/landscape/abc.mp4?expires=360''\<rparr>))
   \<and> s3 (snd (handlerUploadVideo ex_cfg
          (ex_ext (probe_ok (Some 1920) (Some 1080)) (remux_ok (Some [])))
          (ex_video_req ex_mp4) ex_world)) (''tubely'', ''landscape/abc.mp4'')
     = Some ([], ''video/mp4'')"
  by code_simp

text \<open>
  Claim C5, amended. The remuxer's output path is \<open>input.processed\<close>; a non-zero exit
  fails the request with an error whose message holds the exit code and the diagnostic
  output; a missing output file fails the request even though the process reported
  success; an output file that exists is uploaded, whatever its length, be it written
  by this run or found at the path. On both failures the bucket and the table are as
  before.
\<close>

theorem remux_contract:
  assumes "video_upload_accepted req w videoId f row"
    and "getVideoAspectRatio ext (scratch_path ext videoId) = Inr c"
  shows
    "fst (processVideoForFastStart ext p w0) =
       (if remux_exited (ffmpeg ext p (p @ ''.processed'')) = 0 then Inr (p @ ''.processed'')
        else Inl (Error (''Command failed with code ''
                         @ string_of_int (remux_exited (ffmpeg ext p (p @ ''.processed'')))
                         @ '': '' @ remux_err (ffmpeg ext p (p @ ''.processed'')))))
     \<and> (remux_exited (ffmpeg ext (scratch_path ext videoId) (scratch_path ext videoId @ ''.processed'')) \<noteq> 0 \<longrightarrow>
          fst (handlerUploadVideo cfg ext req w) =
            Inl (Error (''Command failed with code ''
              @ string_of_int (remux_exited (ffmpeg ext (scratch_path ext videoId)
                                               (scratch_path ext videoId @ ''.processed'')))
              @ '': '' @ remux_err (ffmpeg ext (scratch_path ext videoId)
                                               (scratch_path ext videoId @ ''.processed''))))
          \<and> s3 (snd (handlerUploadVideo cfg ext req w)) = s3 w
          \<and> db (snd (handlerUploadVideo cfg ext req w)) = db w)
     \<and> (remux_exited (ffmpeg ext (scratch_path ext videoId) (scratch_path ext videoId @ ''.processed'')) = 0 \<and>
        remux_written (ffmpeg ext (scratch_path ext videoId) (scratch_path ext videoId @ ''.processed'')) = None \<and>
        files w (scratch_path ext videoId @ ''.processed'') = None \<longrightarrow>
          fst (handlerUploadVideo cfg ext req w) = Inl (Error ''Processed file was not created'')
          \<and> s3 (snd (handlerUploadVideo cfg ext req w)) = s3 w
          \<and> db (snd (handlerUploadVideo cfg ext req w)) = db w)
     \<and> (remux_exited (ffmpeg ext (scratch_path ext videoId) (scratch_path ext videoId @ ''.processed'')) = 0 \<and>
        remux_written (ffmpeg ext (scratch_path ext videoId) (scratch_path ext videoId @ ''.processed'')) = Some body \<and>
        s3_write ext = None \<longrightarrow>
          \<not> isl (fst (handlerUploadVideo cfg ext req w))
          \<and> s3 (snd (handlerUploadVideo cfg ext req w)) (s3Bucket cfg, storage_key c videoId)
              = Some (body, ''video/mp4''))
     \<and> (remux_exited (ffmpeg ext (scratch_path ext videoId) (scratch_path ext videoId @ ''.processed'')) = 0 \<and>
        remux_written (ffmpeg ext (scratch_path ext videoId) (scratch_path ext videoId @ ''.processed'')) = None \<and>
        files w (scratch_path ext videoId @ ''.processed'') = Some stale \<and>
        s3_write ext = None \<longrightarrow>
          \<not> isl (fst (handlerUploadVideo cfg ext req w))
          \<and> s3 (snd (handlerUploadVideo cfg ext req w)) (s3Bucket cfg, storage_key c videoId)
              = Some (stale, ''video/mp4''))"
  using processVideoForFastStart_result [of ext p w0]
    upload_video_remux_fails [OF assms, of cfg]
    upload_video_no_output [OF assms, of cfg]
    upload_video_output_present [OF assms, of body cfg]
    upload_video_stale_output [OF assms, of stale cfg]
  by blast

theorem remux_contract_witness:
  "video_upload_accepted (ex_video_req ex_mp4) ex_world ''abc'' ex_mp4 ex_row
   \<and> fst (handlerUploadVideo ex_cfg
        (ex_ext (probe_ok (Some 1920) (Some 1080))
           \<lparr>remux_exited = 1, remux_err = ''Conversion failed!'', remux_written = None\<rparr>)
        (ex_video_req ex_mp4) ex_world)
      = Inl (Error ''Command failed with code 1: Conversion failed!'')
   \<and> fst (handlerUploadVideo ex_cfg
        (ex_ext (probe_ok (Some 1920) (Some 1080)) (remux_ok None))
        (ex_video_req ex_mp4) ex_world)
      = Inl (Error ''Processed file was not created'')
   \<and> s3 (snd (handlerUploadVideo ex_cfg
        (ex_ext (probe_ok (Some 1920) (Some 1080)) (remux_ok (Some [7, 7])))
        (ex_video_req ex_mp4) ex_world)) (''tubely'', ''landscape/abc.mp4'')
      = Some ([7, 7], ''video/mp4'')
   \<and> s3 (snd (handlerUploadVideo ex_cfg
        (ex_ext (probe_ok (Some 1920) (Some 1080)) (remux_ok None))
        (ex_video_req ex_mp4)
        (ex_world\<lparr>files := [''/tmp/abc.mp4.processed'' \<mapsto> [9]]\<rparr>)))
        (''tubely'', ''landscape/abc.mp4'')
      = Some ([9], ''video/mp4'')"
proof -
  let ?fail = "\<lparr>remux_exited = 1, remux_err = ''Conversion failed!'', remux_written = None\<rparr>"
  let ?stale = "ex_world\<lparr>files := [''/tmp/abc.mp4.processed'' \<mapsto> [9]]\<rparr>"
  have s: "s3_write (ex_ext probe remux) = None" for probe remux
    by (simp add: ex_ext_def)
  have n: "files ex_world q = None" for q
    by (simp add: ex_world_def)
  have a: "video_upload_accepted (ex_video_req ex_mp4) ?stale ''abc'' ex_mp4 ex_row"
    using ex_accepted by (simp add: video_upload_accepted_def)
  have t: "s3 (snd (handlerUploadVideo ex_cfg
        (ex_ext (probe_ok (Some 1920) (Some 1080)) (remux_ok None))
        (ex_video_req ex_mp4) ?stale)) (''tubely'', ''landscape/abc.mp4'')
      = Some ([9], ''video/mp4'')"
    using remux_contract [OF a ex_landscape, of "remux_ok None" "''/tmp/abc.mp4''" ex_world ex_cfg
        "[]" "[9]"]
    by (simp add: ex_scratch_path ex_ffmpeg remux_ok_def s ex_cfg_def storage_key_def)
  show ?thesis
    using remux_contract [OF ex_accepted ex_landscape, of ?fail "''/tmp/abc.mp4''" ex_world ex_cfg
        "[]" "[]"]
      remux_contract [OF ex_accepted ex_landscape, of "remux_ok None" "''/tmp/abc.mp4''" ex_world
        ex_cfg "[]" "[]"]
      remux_contract [OF ex_accepted ex_landscape, of "remux_ok (Some [7, 7])" "''/tmp/abc.mp4''"
        ex_world ex_cfg "[7, 7]" "[]"]
      ex_accepted t
    by (simp add: ex_scratch_path ex_ffmpeg remux_ok_def string_of_int_1 s n ex_cfg_def
        storage_key_def)
qed

subsection \<open>Validation\<close>

text \<open>
  Claim C6, as stated, fails: an upload without a payload whose body cannot be read as
  form data fails with the error of reading it, and an upload with a payload of the
  wrong type and a rejected token fails with the authentication error. Neither is a
  \<open>BadRequestError\<close>.
\<close>

theorem invalid_payload_other_errors:
  "video_payload_invalid (form_field ex_bodyless_req ''video'')
   \<and> handlerUploadVideo ex_cfg (ex_ext (probe_ok (Some 16) (Some 9)) (remux_ok (Some [1])))
        ex_bodyless_req ex_world
      = (Inl (TypeError ''FormData parse error: missing final boundary''), ex_world)
   \<and> thumbnail_payload_invalid (form_field ex_bodyless_req ''thumbnail'')
   \<and> handlerUploadThumbnail ex_cfg (ex_ext (probe_ok (Some 16) (Some 9)) (remux_ok (Some [1])))
        ex_bodyless_req ex_world
      = (Inl (TypeError ''FormData parse error: missing final boundary''), ex_world)
   \<and> video_payload_invalid
        (form_field (ex_unauthenticated_req ''video'' \<lparr>fdata = [26, 69], ftype = ''video/webm''\<rparr>)
           ''video'')
   \<and> handlerUploadVideo ex_cfg (ex_ext (probe_ok (Some 16) (Some 9)) (remux_ok (Some [1])))
        (ex_unauthenticated_req ''video'' \<lparr>fdata = [26, 69], ftype = ''video/webm''\<rparr>) ex_world
      = (Inl (AuthenticationError ''Invalid token''), ex_world)"
  by (simp add: ex_bodyless_req_def ex_unauthenticated_req_def form_field_def
      video_payload_invalid_def thumbnail_payload_invalid_def handlerUploadVideo_def
      handlerUploadThumbnail_def falsy_def)

text \<open>
  Claim C6, amended. An upload whose payload is missing, larger than its ceiling (1 GiB
  for a video, 10 MiB for a thumbnail) or of a media type outside the accepted set fails
  and leaves the world as it was: no scratch file, no object, no registry entry, no row
  is written. The error is a \<open>BadRequestError\<close> whenever the bearer token was accepted
  and the body was read as form data; a rejected token fails first, with the error of
  the auth module, and a body that cannot be read fails with the error of reading it.
\<close>

theorem validation_before_io:
  "(video_payload_invalid (form_field req ''video'') \<longrightarrow>
      snd (handlerUploadVideo cfg ext req w) = w \<and>
      isl (fst (handlerUploadVideo cfg ext req w)) \<and>
      (\<not> isl (bearer req) \<and> \<not> isl (formData req) \<longrightarrow>
         (\<exists>m. fst (handlerUploadVideo cfg ext req w) = Inl (BadRequestError m))) \<and>
      (\<not> falsy (params_videoId req) \<and> bearer req = Inl e \<longrightarrow>
         fst (handlerUploadVideo cfg ext req w) = Inl e) \<and>
      (\<not> falsy (params_videoId req) \<and> \<not> isl (bearer req) \<and> formData req = Inl e \<longrightarrow>
         fst (handlerUploadVideo cfg ext req w) = Inl e)) \<and>
   (thumbnail_payload_invalid (form_field req ''thumbnail'') \<longrightarrow>
      snd (handlerUploadThumbnail cfg ext req w) = w \<and>
      isl (fst (handlerUploadThumbnail cfg ext req w)) \<and>
      (\<not> isl (bearer req) \<and> \<not> isl (formData req) \<longrightarrow>
         (\<exists>m. fst (handlerUploadThumbnail cfg ext req w) = Inl (BadRequestError m))) \<and>
      (\<not> falsy (params_videoId req) \<and> bearer req = Inl e \<longrightarrow>
         fst (handlerUploadThumbnail cfg ext req w) = Inl e) \<and>
      (\<not> falsy (params_videoId req) \<and> \<not> isl (bearer req) \<and> formData req = Inl e \<longrightarrow>
         fst (handlerUploadThumbnail cfg ext req w) = Inl e))"
proof (intro conjI impI)
  assume a: "video_payload_invalid (form_field req ''video'')"
  show "snd (handlerUploadVideo cfg ext req w) = w"
    by (rule upload_video_rejects(1) [OF a])
  show "isl (fst (handlerUploadVideo cfg ext req w))"
    by (rule upload_video_rejects(2) [OF a])
  {
    assume "\<not> isl (bearer req) \<and> \<not> isl (formData req)"
    then obtain user form where "bearer req = Inr user" "formData req = Inr form"
      by (cases "bearer req"; cases "formData req") auto
    then show "\<exists>m. fst (handlerUploadVideo cfg ext req w) = Inl (BadRequestError m)"
      by (rule upload_video_rejects(3) [OF a])
  }
  {
    assume "\<not> falsy (params_videoId req) \<and> bearer req = Inl e"
    then show "fst (handlerUploadVideo cfg ext req w) = Inl e"
      using upload_video_token_first(1) [of req e cfg ext w] by simp
  }
  {
    assume b: "\<not> falsy (params_videoId req) \<and> \<not> isl (bearer req) \<and> formData req = Inl e"
    then obtain user where "bearer req = Inr user"
      by (cases "bearer req") auto
    then show "fst (handlerUploadVideo cfg ext req w) = Inl e"
      using b upload_video_token_first(2) [of req user e cfg ext w] by simp
  }
next
  assume a: "thumbnail_payload_invalid (form_field req ''thumbnail'')"
  show "snd (handlerUploadThumbnail cfg ext req w) = w"
    by (rule upload_thumbnail_rejects(1) [OF a])
  show "isl (fst (handlerUploadThumbnail cfg ext req w))"
    by (rule upload_thumbnail_rejects(2) [OF a])
  {
    assume "\<not> isl (bearer req) \<and> \<not> isl (formData req)"
    then obtain user form where "bearer req = Inr user" "formData req = Inr form"
      by (cases "bearer req"; cases "formData req") auto
    then show "\<exists>m. fst (handlerUploadThumbnail cfg ext req w) = Inl (BadRequestError m)"
      by (rule upload_thumbnail_rejects(3) [OF a])
  }
  {
    assume "\<not> falsy (params_videoId req) \<and> bearer req = Inl e"
    then show "fst (handlerUploadThumbnail cfg ext req w) = Inl e"
      using upload_thumbnail_token_first(1) [of req e cfg ext w] by simp
  }
  {
    assume b: "\<not> falsy (params_videoId req) \<and> \<not> isl (bearer req) \<and> formData req = Inl e"
    then obtain user where "bearer req = Inr user"
      by (cases "bearer req") auto
    then show "fst (handlerUploadThumbnail cfg ext req w) = Inl e"
      using b upload_thumbnail_token_first(2) [of req user e cfg ext w] by simp
  }
qed

theorem validation_before_io_witness:
  "video_payload_invalid
     (form_field (ex_video_req \<lparr>fdata = replicate (2 ^ 30 + 1) 0, ftype = ''video/mp4''\<rparr>) ''video'') \<and>
   handlerUploadVideo ex_cfg (ex_ext (probe_ok (Some 16) (Some 9)) (remux_ok (Some [1])))
     (ex_video_req \<lparr>fdata = replicate (2 ^ 30 + 1) 0, ftype = ''video/mp4''\<rparr>) ex_world =
     (Inl (BadRequestError ''Video too large, max size: 1GB''), ex_world) \<and>
   thumbnail_payload_invalid
     (form_field (ex_thumbnail_req ''alice'' \<lparr>fdata = [71, 73, 70], ftype = ''image/gif''\<rparr>) ''thumbnail'') \<and>
   handlerUploadThumbnail ex_cfg (ex_ext (probe_ok (Some 16) (Some 9)) (remux_ok (Some [1])))
     (ex_thumbnail_req ''alice'' \<lparr>fdata = [71, 73, 70], ftype = ''image/gif''\<rparr>) ex_world =
     (Inl (BadRequestError ''Invalid Content-Type for thumbnail''), ex_world) \<and>
   video_payload_invalid
     (form_field (ex_unauthenticated_req ''video'' \<lparr>fdata = [26, 69], ftype = ''video/webm''\<rparr>)
        ''video'') \<and>
   handlerUploadVideo ex_cfg (ex_ext (probe_ok (Some 16) (Some 9)) (remux_ok (Some [1])))
     (ex_unauthenticated_req ''video'' \<lparr>fdata = [26, 69], ftype = ''video/webm''\<rparr>) ex_world =
     (Inl (AuthenticationError ''Invalid token''), ex_world) \<and>
   thumbnail_payload_invalid (form_field ex_bodyless_req ''thumbnail'') \<and>
   handlerUploadThumbnail ex_cfg (ex_ext (probe_ok (Some 16) (Some 9)) (remux_ok (Some [1])))
     ex_bodyless_req ex_world =
     (Inl (TypeError ''FormData parse error: missing final boundary''), ex_world)"
  using validation_before_io
      [of "ex_video_req \<lparr>fdata = replicate (2 ^ 30 + 1) 0, ftype = ''video/mp4''\<rparr>"
          ex_cfg "ex_ext (probe_ok (Some 16) (Some 9)) (remux_ok (Some [1]))" ex_world
          "Error []"]
    validation_before_io
      [of "ex_thumbnail_req ''alice'' \<lparr>fdata = [71, 73, 70], ftype = ''image/gif''\<rparr>"
          ex_cfg "ex_ext (probe_ok (Some 16) (Some 9)) (remux_ok (Some [1]))" ex_world
          "Error []"]
    validation_before_io
      [of "ex_unauthenticated_req ''video'' \<lparr>fdata = [26, 69], ftype = ''video/webm''\<rparr>"
          ex_cfg "ex_ext (probe_ok (Some 16) (Some 9)) (remux_ok (Some [1]))" ex_world
          "AuthenticationError ''Invalid token''"]
    validation_before_io
      [of ex_bodyless_req
          ex_cfg "ex_ext (probe_ok (Some 16) (Some 9)) (remux_ok (Some [1]))" ex_world
          "TypeError ''FormData parse error: missing final boundary''"]
  by (simp add: ex_video_req_def ex_thumbnail_req_def ex_unauthenticated_req_def
      ex_bodyless_req_def video_payload_invalid_def thumbnail_payload_invalid_def fsize_def
      form_field_def handlerUploadVideo_def handlerUploadThumbnail_def
      falsy_def MAX_UPLOAD_SIZE_video MAX_UPLOAD_SIZE_thumbnail)

subsection \<open>Aspect classification\<close>




subsection \<open>Probe failures\<close>

text \<open>
  Claim C8, as stated, fails: a first stream without dimensions is no failure (the
  video is classified \<open>other\<close> and the upload succeeds), and malformed output fails
  with the parser's error, which does not hold the diagnostic output.
\<close>

theorem probe_without_dimensions_succeeds:
  "getVideoAspectRatio
     (ex_ext \<lparr>probe_exited = 0, probe_out = FirstStream None None, probe_err = ''no dimensions''\<rparr>
        (remux_ok (Some [7, 7]))) ''/tmp/abc.mp4''
     = Inr ''other''
   \<and> fst (handlerUploadVideo ex_cfg
        (ex_ext \<lparr>probe_exited = 0, probe_out = FirstStream None None, probe_err = ''no dimensions''\<rparr>
           (remux_ok (Some [7, 7])))
        (ex_video_req ex_mp4) ex_world)
     = Inr (JSON 200 (ex_row\<lparr>videoURL := Some ''https://tubely.s3.example/other/abc.mp4?expires=360''\<rparr>))
   \<and> getVideoAspectRatio
     (ex_ext \<lparr>probe_exited = 0, probe_out = Malformed ''Unexpected end of JSON input'',
              probe_err = ''moov atom not found''\<rparr>
        (remux_ok (Some [7, 7]))) ''/tmp/abc.mp4''
     = Inl (SyntaxError ''Unexpected end of JSON input'')"
  by code_simp

text \<open>
  Claim C8, amended. A non-zero exit of the probe fails the upload with an error holding
  the diagnostic output; output that does not parse fails it with the parser's syntax
  error, and an absent first stream with a type error; in each case the handler stops
  there, with only the scratch file written. A first stream lacking width or height is
  classified \<open>other\<close>.
\<close>

theorem probe_failures:
  assumes "video_upload_accepted req w videoId f row"
  shows
    "(probe_exited (ffprobe ext (scratch_path ext videoId)) \<noteq> 0 \<longrightarrow>
        handlerUploadVideo cfg ext req w =
          (Inl (Error (probe_err (ffprobe ext (scratch_path ext videoId)))),
           Bun_write (scratch_path ext videoId) (fdata f) w))
     \<and> (probe_exited (ffprobe ext (scratch_path ext videoId)) = 0 \<and>
        probe_out (ffprobe ext (scratch_path ext videoId)) = Malformed m \<longrightarrow>
        handlerUploadVideo cfg ext req w =
          (Inl (SyntaxError m), Bun_write (scratch_path ext videoId) (fdata f) w))
     \<and> (probe_exited (ffprobe ext (scratch_path ext videoId)) = 0 \<and>
        probe_out (ffprobe ext (scratch_path ext videoId)) = NoFirstStream m \<longrightarrow>
        handlerUploadVideo cfg ext req w =
          (Inl (TypeError m), Bun_write (scratch_path ext videoId) (fdata f) w))
     \<and> (probe_exited (ffprobe ext (scratch_path ext videoId)) = 0 \<and>
        probe_out (ffprobe ext (scratch_path ext videoId)) = FirstStream width height \<and>
        (width = None \<or> height = None) \<longrightarrow>
        getVideoAspectRatio ext (scratch_path ext videoId) = Inr ''other'')"
proof (intro conjI impI)
  assume "probe_exited (ffprobe ext (scratch_path ext videoId)) \<noteq> 0"
  then have "getVideoAspectRatio ext (scratch_path ext videoId) =
      Inl (Error (probe_err (ffprobe ext (scratch_path ext videoId))))"
    by (simp add: getVideoAspectRatio_def Let_def)
  then show "handlerUploadVideo cfg ext req w =
          (Inl (Error (probe_err (ffprobe ext (scratch_path ext videoId)))),
           Bun_write (scratch_path ext videoId) (fdata f) w)"
    by (rule upload_video_probe_fails [OF assms])
next
  assume "probe_exited (ffprobe ext (scratch_path ext videoId)) = 0 \<and>
        probe_out (ffprobe ext (scratch_path ext videoId)) = Malformed m"
  then have "getVideoAspectRatio ext (scratch_path ext videoId) = Inl (SyntaxError m)"
    by (simp add: getVideoAspectRatio_def Let_def)
  then show "handlerUploadVideo cfg ext req w =
          (Inl (SyntaxError m), Bun_write (scratch_path ext videoId) (fdata f) w)"
    by (rule upload_video_probe_fails [OF assms])
next
  assume "probe_exited (ffprobe ext (scratch_path ext videoId)) = 0 \<and>
        probe_out (ffprobe ext (scratch_path ext videoId)) = NoFirstStream m"
  then have "getVideoAspectRatio ext (scratch_path ext videoId) = Inl (TypeError m)"
    by (simp add: getVideoAspectRatio_def Let_def)
  then show "handlerUploadVideo cfg ext req w =
          (Inl (TypeError m), Bun_write (scratch_path ext videoId) (fdata f) w)"
    by (rule upload_video_probe_fails [OF assms])
next
  assume "probe_exited (ffprobe ext (scratch_path ext videoId)) = 0 \<and>
        probe_out (ffprobe ext (scratch_path ext videoId)) = FirstStream width height \<and>
        (width = None \<or> height = None)"
  then show "getVideoAspectRatio ext (scratch_path ext videoId) = Inr ''other''"
    using getVideoAspectRatio_missing_dimension by blast
qed

theorem probe_failures_witness:
  "video_upload_accepted (ex_video_req ex_mp4) ex_world ''abc'' ex_mp4 ex_row
   \<and> handlerUploadVideo ex_cfg
        (ex_ext \<lparr>probe_exited = 1, probe_out = Malformed [], probe_err = ''moov atom not found''\<rparr>
           (remux_ok None))
        (ex_video_req ex_mp4) ex_world
      = (Inl (Error ''moov atom not found''), Bun_write ''/tmp/abc.mp4'' [0, 0, 0, 24] ex_world)
   \<and> handlerUploadVideo ex_cfg
        (ex_ext \<lparr>probe_exited = 0, probe_out = Malformed ''Unexpected end of JSON input'',
                 probe_err = ''moov atom not found''\<rparr>
           (remux_ok None))
        (ex_video_req ex_mp4) ex_world
      = (Inl (SyntaxError ''Unexpected end of JSON input''),
         Bun_write ''/tmp/abc.mp4'' [0, 0, 0, 24] ex_world)
   \<and> handlerUploadVideo ex_cfg
        (ex_ext \<lparr>probe_exited = 0,
                 probe_out = NoFirstStream ''undefined is not an object'',
                 probe_err = []\<rparr>
           (remux_ok None))
        (ex_video_req ex_mp4) ex_world
      = (Inl (TypeError ''undefined is not an object''),
         Bun_write ''/tmp/abc.mp4'' [0, 0, 0, 24] ex_world)
   \<and> getVideoAspectRatio (ex_ext (probe_ok (Some 1920) None) (remux_ok None)) ''/tmp/abc.mp4''
      = Inr ''other''"
  using
    probe_failures [OF ex_accepted,
      of "ex_ext \<lparr>probe_exited = 1, probe_out = Malformed [], probe_err = ''moov atom not found''\<rparr>
            (remux_ok None)" ex_cfg "[]" "Some 1920" None]
    probe_failures [OF ex_accepted,
      of "ex_ext \<lparr>probe_exited = 0, probe_out = Malformed ''Unexpected end of JSON input'',
                 probe_err = ''moov atom not found''\<rparr>
            (remux_ok None)" ex_cfg "''Unexpected end of JSON input''" "Some 1920" None]
    probe_failures [OF ex_accepted,
      of "ex_ext \<lparr>probe_exited = 0,
                 probe_out = NoFirstStream ''undefined is not an object'',
                 probe_err = []\<rparr>
            (remux_ok None)" ex_cfg "''undefined is not an object''" "Some 1920" None]
    probe_failures [OF ex_accepted,
      of "ex_ext (probe_ok (Some 1920) None) (remux_ok None)" ex_cfg "[]" "Some 1920" None]
    ex_accepted
  by (simp add: ex_scratch_path ex_ffprobe probe_ok_def ex_mp4_def)

subsection \<open>The storage key\<close>

text \<open>
  Claim C9. The storage key is \<open>{classification}/{videoId}.mp4\<close>, a function of the
  classification and the video identifier: a successful upload stores the processed
  file in the bucket under exactly that key, and nothing else in the bucket changes.
  For \<open>portrait\<close> and \<open>abc\<close> the key is \<open>portrait/abc.mp4\<close>.
\<close>

theorem storage_key_derivation:
  assumes "handlerUploadVideo cfg ext req w = (Inr r, w')"
    and "params_videoId req = Some videoId"
    and "getVideoAspectRatio ext (scratch_path ext videoId) = Inr classification"
  shows "s3 w' = (s3 w)((s3Bucket cfg, storage_key classification videoId) \<mapsto>
                    (the (files w' (scratch_path ext videoId @ ''.processed'')), ''video/mp4''))
         \<and> storage_key classification videoId = classification @ ''/'' @ videoId @ ''.mp4''
         \<and> storage_key ''portrait'' ''abc'' = ''portrait/abc.mp4''"
proof -
  obtain f row where acc: "video_upload_accepted req w videoId f row"
    using upload_video_succeeds_accepted [OF assms(1,2)] by blast
  have "s3 w' = (s3 w)((s3Bucket cfg, storage_key classification videoId) \<mapsto>
                    (the (files w' (scratch_path ext videoId @ ''.processed'')), ''video/mp4''))"
    using assms(1) unfolding upload_video_accepted [OF acc] Let_def assms(3)
    by (auto simp: processVideoForFastStart_def Let_def s3file_write_def rm_force_def
        Bun_write_def split: option.splits if_splits)
  then show ?thesis
    by (simp add: storage_key_def)
qed

theorem storage_key_derivation_witness:
  "fst (handlerUploadVideo ex_cfg (ex_ext (probe_ok (Some 1080) (Some 1920)) (remux_ok (Some [7, 7])))
          (ex_video_req ex_mp4) ex_world)
     = Inr (JSON 200 (ex_row\<lparr>videoURL := Some ''https://tubely.s3.example/portrait/abc.mp4?expires=360''\<rparr>))
   \<and> s3 (snd (handlerUploadVideo ex_cfg (ex_ext (probe_ok (Some 1080) (Some 1920)) (remux_ok (Some [7, 7])))
          (ex_video_req ex_mp4) ex_world)) (''tubely'', ''portrait/abc.mp4'')
     = Some ([7, 7], ''video/mp4'')"
proof -
  let ?ext = "ex_ext (probe_ok (Some 1080) (Some 1920)) (remux_ok (Some [7, 7]))"
  let ?h = "handlerUploadVideo ex_cfg ?ext (ex_video_req ex_mp4) ex_world"
  have r: "fst ?h = Inr (JSON 200 (ex_row\<lparr>videoURL := Some ''https://tubely.s3.example/portrait/abc.mp4?expires=360''\<rparr>))"
    by code_simp
  have h: "?h = (Inr (JSON 200 (ex_row\<lparr>videoURL := Some ''https://tubely.s3.example/portrait/abc.mp4?expires=360''\<rparr>)), snd ?h)"
    using r by (simp add: prod_eq_iff)
  have v: "params_videoId (ex_video_req ex_mp4) = Some ''abc''"
    by (simp add: ex_video_req_def)
  have c: "getVideoAspectRatio ?ext (scratch_path ?ext ''abc'') = Inr ''portrait''"
    by code_simp
  have f: "files (snd ?h) (scratch_path ?ext ''abc'' @ ''.processed'') = Some [7, 7]"
    by code_simp
  show ?thesis
    using storage_key_derivation [OF h v c] r f
    by (simp add: ex_cfg_def storage_key_def)
qed

subsection \<open>Thumbnail retrieval\<close>

text \<open>
  Claim C10. Retrieving a thumbnail changes nothing: the registry, the table of videos,
  the files and the bucket are as before. When the table has no row for the requested
  identifier the answer is the not-found error of the table, whatever the registry holds.
\<close>

theorem get_thumbnail_read_only:
  "snd (handlerGetThumbnail req w) = w \<and>
   (params_videoId req = Some videoId \<and> videoId \<noteq> [] \<and> getVideo (db w) videoId = None \<longrightarrow>
      (\<forall>reg. handlerGetThumbnail req (w\<lparr>videoThumbnails := reg\<rparr>) =
               (Inl (NotFoundError ''Couldn't find video''), w\<lparr>videoThumbnails := reg\<rparr>)))"
  by (simp add: handlerGetThumbnail_def falsy_def Let_def split: option.split)

theorem get_thumbnail_read_only_witness:
  "getVideo (db ex_world) ''nosuch'' = None \<and>
   handlerGetThumbnail (ex_get_req ''nosuch'')
     (ex_world\<lparr>videoThumbnails := [''nosuch'' \<mapsto> \<lparr>data = [1], mediaType = ''image/png''\<rparr>]\<rparr>) =
     (Inl (NotFoundError ''Couldn't find video''),
      ex_world\<lparr>videoThumbnails := [''nosuch'' \<mapsto> \<lparr>data = [1], mediaType = ''image/png''\<rparr>]\<rparr>)"
  using get_thumbnail_read_only [of "ex_get_req ''nosuch''" ex_world "''nosuch''"]
  by (simp add: ex_get_req_def ex_world_def ex_row_def getVideo_def)

end
